theory Spec2Isabelle
  imports Main "HOL-Library.Product_Lexorder"
begin

section \<open>Data model of the pill reminder bot (src/app.py)\<close>

text \<open>
  The bot keeps one item per chat in a key-value table. An item is a Python dictionary
  with the keys \<open>chat_id\<close>, \<open>timezone\<close>, \<open>language\<close> and \<open>medications\<close>; a
  medication is a dictionary with the keys \<open>name\<close>, \<open>dosage\<close>, \<open>times\<close>,
  \<open>acknowledged\<close> and \<open>last_reminder_time\<close>. Every key except \<open>chat_id\<close> is read
  with \<open>dict.get\<close> and a default, so each of these fields is optional here: \<open>None\<close>
  is a key that is absent from the dictionary.
\<close>

record medication =
  name :: "string option"
  dosage :: "string option"
  times' :: "string list option"
  acknowledged :: "(string \<rightharpoonup> string) option"
  last_reminder_time :: "string option"

record user =
  chat_id :: string
  timezone :: "string option"
  language :: "string option"
  medications :: "medication list option"

text \<open>\<open>d.get(key, default)\<close> on an optional field.\<close>

definition getd :: "'a option \<Rightarrow> 'a \<Rightarrow> 'a" where
  "getd x d = (case x of None \<Rightarrow> d | Some v \<Rightarrow> v)"

text \<open>
  A \<open>datetime\<close> value: its wall-clock fields, and the offset from UTC in minutes when the
  value is aware (\<open>None\<close> for the naive result of \<open>datetime.utcnow()\<close>).
\<close>

record datetime =
  year :: nat
  month :: nat
  day :: nat
  hour :: nat
  minute :: nat
  second :: nat
  microsecond :: nat
  utcoffset :: "int option"

text \<open>\<open>d.date()\<close>.\<close>

definition date :: "datetime \<Rightarrow> nat \<times> nat \<times> nat" where
  "date d = (year d, month d, day d)"

text \<open>
  \<open>a < b\<close> on two aware datetimes that carry the same \<open>tzinfo\<close> object, as
  \<open>now_local\<close> and \<open>scheduled_dt\<close> do: Python then compares the wall-clock fields
  and ignores the zone.
\<close>

definition dt_less :: "datetime \<Rightarrow> datetime \<Rightarrow> bool" where
  "dt_less a b \<longleftrightarrow>
     (year a, month a, day a, hour a, minute a, second a, microsecond a)
       < (year b, month b, day b, hour b, minute b, second b, microsecond b)"

subsection \<open>The Python library the code calls\<close>

text \<open>
  The standard-library functions the handlers call are parameters of the model, gathered
  in one record, so that every theorem below holds for whatever these functions compute:
  \<^item> \<open>lower\<close> is \<open>str.lower\<close>;
  \<^item> \<open>ZoneInfo\<close> is the constructor \<open>ZoneInfo(key)\<close>, \<open>None\<close> when it raises; a zone
    is the function \<open>now_utc.astimezone(tz)\<close> it induces on the naive UTC clock reading;
  \<^item> \<open>strptime_HM s\<close> is \<open>datetime.strptime(s, "%H:%M").time()\<close> as the pair of hour and
    minute, \<open>None\<close> when it raises;
  \<^item> \<open>strftime_Ymd d\<close> is \<open>d.strftime("%Y-%m-%d")\<close>;
  \<^item> \<open>isoformat\<close> and \<open>fromisoformat\<close> are the methods of \<open>datetime\<close> of these names,
    the latter \<open>None\<close> when it raises.
\<close>

type_synonym tzinfo = "datetime \<Rightarrow> datetime"

record pylib =
  lower :: "string \<Rightarrow> string"
  ZoneInfo :: "string \<Rightarrow> tzinfo option"
  strptime_HM :: "string \<Rightarrow> (nat \<times> nat) option"
  strftime_Ymd :: "datetime \<Rightarrow> string"
  isoformat :: "datetime \<Rightarrow> string"
  fromisoformat :: "string \<Rightarrow> datetime option"

datatype error = KeyError | ZoneInfoNotFoundError

text \<open>
  The \<open>try: tz = ZoneInfo(tz_str) except Exception: tz = ZoneInfo("UTC")\<close> of the sweep and
  of the acknowledgment handler. The handler of the exception calls \<open>ZoneInfo\<close> again, which
  raises in turn when the key \<open>UTC\<close> does not resolve either.
\<close>

definition resolve_tz :: "pylib \<Rightarrow> string \<Rightarrow> error + tzinfo" where
  "resolve_tz lib tz_str =
     (case ZoneInfo lib tz_str of
        Some tz \<Rightarrow> Inr tz
      | None \<Rightarrow> (case ZoneInfo lib ''UTC'' of
                   Some tz \<Rightarrow> Inr tz
                 | None \<Rightarrow> Inl ZoneInfoNotFoundError))"

text \<open>\<open>s.split(sep)\<close> with a one-character separator, and \<open>sep.join(xs)\<close>.\<close>

fun split_str :: "char \<Rightarrow> string \<Rightarrow> string list" where
  "split_str sep [] = [[]]"
| "split_str sep (c # cs) =
     (if c = sep then [] # split_str sep cs
      else (case split_str sep cs of
              w # ws \<Rightarrow> (c # w) # ws
            | [] \<Rightarrow> [[c]]))"

fun join :: "string \<Rightarrow> string list \<Rightarrow> string" where
  "join sep [] = []"
| "join sep [x] = x"
| "join sep (x # y # ys) = x @ sep @ join sep (y # ys)"

subsection \<open>Messages\<close>

text \<open>
  \<open>get_msg(key, lang, **kwargs)\<close> formats an entry of the translation table
  \<open>messages.json\<close>. A text is kept as the key, the language and the keyword arguments it
  was built from.
\<close>

datatype message = get_msg string string "(string \<times> string) list"

text \<open>What \<open>str.format\<close> prints for a value that may be \<open>None\<close>.\<close>

definition str_of :: "string option \<Rightarrow> string" where
  "str_of x = (case x of None \<Rightarrow> ''None'' | Some s \<Rightarrow> s)"

text \<open>
  One call \<open>send_message_with_limit(chat_id, message_text, keyboard)\<close> appended to
  \<open>tasks\<close>: the chat, the text, and the label and callback data of the one inline button.
\<close>

record reminder =
  to_chat :: string
  text_of :: message
  button :: message
  callback_data :: string

subsection \<open>The table\<close>

text \<open>
  The table holds the items in the order \<open>table.scan()\<close> returns them; \<open>put_log\<close> records
  every \<open>table.put_item\<close> in the order of the calls, oldest first.
\<close>

record store =
  items :: "user list"
  put_log :: "user list"

definition get_item :: "store \<Rightarrow> string \<Rightarrow> user option" where
  "get_item st k = find (\<lambda>u. chat_id u = k) (items st)"

fun put_item :: "user \<Rightarrow> user list \<Rightarrow> user list" where
  "put_item u [] = [u]"
| "put_item u (x # xs) = (if chat_id x = chat_id u then u # xs else x # put_item u xs)"

definition get_user_data :: "store \<Rightarrow> string \<Rightarrow> user" where
  "get_user_data st cid =
     (let item = (case get_item st cid of
                    None \<Rightarrow> \<lparr>chat_id = cid, timezone = Some ''UTC'',
                              language = Some ''ru'', medications = Some []\<rparr>
                  | Some i \<Rightarrow> i)
      in if language item = None then item\<lparr>language := Some ''ru''\<rparr> else item)"

definition save_user_data :: "store \<Rightarrow> user \<Rightarrow> store" where
  "save_user_data st user_data =
     st\<lparr>items := put_item user_data (items st), put_log := put_log st @ [user_data]\<rparr>"

section \<open>Command handlers\<close>

text \<open>
  Each handler takes the table, the chat of the update and the command's arguments
  (\<open>context.args\<close>), and returns the reply and the table afterwards. The \<open>restricted\<close>
  wrapper (the allow-list of user names) runs before a handler and is not part of it.
\<close>

definition add_medicine :: "store \<Rightarrow> string \<Rightarrow> string list \<Rightarrow> error + (message \<times> store)" where
  "add_medicine st cid args =
     (let user_data = get_user_data st cid;
          lang = getd (language user_data) ''ru''
      in case args of
           medicine_name # dose # t # ts \<Rightarrow>
             (let times = t # ts
              in case medications user_data of
                   None \<Rightarrow> Inl KeyError
                 | Some meds \<Rightarrow>
                     Inr (get_msg ''medicine_added'' lang
                            [(''medicine'', medicine_name), (''dosage'', dose),
                             (''times'', join '', '' times)],
                          save_user_data st
                            (user_data\<lparr>medications := Some (meds @
                               [\<lparr>name = Some medicine_name, dosage = Some dose,
                                 times' = Some times, acknowledged = Some Map.empty,
                                 last_reminder_time = None\<rparr>])\<rparr>)))
         | _ \<Rightarrow> Inr (get_msg ''addmedicine_usage'' lang [], st))"

definition delete_medicine :: "pylib \<Rightarrow> store \<Rightarrow> string \<Rightarrow> string list \<Rightarrow> message \<times> store" where
  "delete_medicine lib st cid args =
     (let user_data = get_user_data st cid;
          lang = getd (language user_data) ''ru''
      in case args of
           [] \<Rightarrow> (get_msg ''deletemedicine_usage'' lang [], st)
         | medicine_name # _ \<Rightarrow>
             (let meds = getd (medications user_data) [];
                  new_medications =
                    filter (\<lambda>med. lower lib (getd (name med) []) \<noteq> lower lib medicine_name) meds
              in if length new_medications = length meds
                 then (get_msg ''medicine_not_found'' lang [(''medicine'', medicine_name)], st)
                 else (get_msg ''medicine_deleted'' lang [(''medicine'', medicine_name)],
                       save_user_data st (user_data\<lparr>medications := Some new_medications\<rparr>))))"

definition set_timezone :: "store \<Rightarrow> string \<Rightarrow> string list \<Rightarrow> message \<times> store" where
  "set_timezone st cid args =
     (let user_data = get_user_data st cid;
          lang = getd (language user_data) ''ru''
      in case args of
           [] \<Rightarrow> (get_msg ''settimezone_usage'' lang [], st)
         | tz # _ \<Rightarrow>
             (get_msg ''timezone_set'' lang [(''timezone'', tz)],
              save_user_data st (user_data\<lparr>timezone := Some tz\<rparr>)))"

definition set_language :: "pylib \<Rightarrow> store \<Rightarrow> string \<Rightarrow> string list \<Rightarrow> message \<times> store" where
  "set_language lib st cid args =
     (let user_data = get_user_data st cid;
          current_lang = getd (language user_data) ''ru''
      in case args of
           [] \<Rightarrow> (get_msg ''setlanguage_usage'' current_lang [], st)
         | a # _ \<Rightarrow>
             (let new_lang = lower lib a
              in if new_lang \<notin> {''ru'', ''en''}
                 then (get_msg ''setlanguage_usage'' current_lang [], st)
                 else (get_msg ''language_set'' new_lang [],
                       save_user_data st (user_data\<lparr>language := Some new_lang\<rparr>))))"

section \<open>The acknowledgment handler\<close>

text \<open>
  The loop of \<open>callback_acknowledge\<close> over the medications: it stops (\<open>break\<close>) at the
  first medication whose name matches and whose times contain \<open>med_time\<close>, after setting
  \<open>acknowledged[med_time]\<close> there (creating the dictionary when the key is absent). It
  returns the list afterwards and the flag \<open>found\<close>.
\<close>

fun ack_loop ::
  "pylib \<Rightarrow> string \<Rightarrow> string \<Rightarrow> string \<Rightarrow> medication list \<Rightarrow> medication list \<times> bool" where
  "ack_loop lib med_name med_time today_str [] = ([], False)"
| "ack_loop lib med_name med_time today_str (med # rest) =
     (if lower lib (getd (name med) []) = lower lib med_name
         \<and> med_time \<in> set (getd (times' med) [])
      then (med\<lparr>acknowledged :=
                   Some ((getd (acknowledged med) Map.empty)(med_time \<mapsto> today_str))\<rparr> # rest,
            True)
      else (case ack_loop lib med_name med_time today_str rest of
              (rest', found) \<Rightarrow> (med # rest', found)))"

text \<open>
  \<open>callback_acknowledge\<close>, given the clock reading \<open>datetime.utcnow()\<close> and the callback
  data of the button. On success the handler appends the text of
  \<open>acknowledged_success\<close> to the message it edits; the reply is kept as that text.
\<close>

definition callback_acknowledge ::
  "pylib \<Rightarrow> datetime \<Rightarrow> store \<Rightarrow> string \<Rightarrow> string \<Rightarrow> error + (message \<times> store)" where
  "callback_acknowledge lib now_utc st cid query_data =
     (let user_data = get_user_data st cid;
          lang = getd (language user_data) ''ru''
      in case split_str CHR ''|'' query_data of
           [tag, med_name, med_time] \<Rightarrow>
             if tag \<noteq> ''ack'' then Inr (get_msg ''ack_invalid'' lang [], st)
             else
               (let meds = getd (medications user_data) []
                in case resolve_tz lib (getd (timezone user_data) ''UTC'') of
                     Inl e \<Rightarrow> Inl e
                   | Inr tz \<Rightarrow>
                       (let today_str = strftime_Ymd lib (tz now_utc)
                        in case ack_loop lib med_name med_time today_str meds of
                             (meds', found) \<Rightarrow>
                               if found
                               then Inr (get_msg ''acknowledged_success'' lang [],
                                         save_user_data st
                                           (user_data\<lparr>medications := Some meds'\<rparr>))
                               else Inr (get_msg ''medicine_for_ack_not_found'' lang [], st)))
         | _ \<Rightarrow> Inr (get_msg ''ack_invalid'' lang [], st))"

section \<open>The reminder sweep\<close>

text \<open>
  The body of the innermost loop of \<open>send_reminders_async\<close>, for one fire time
  \<open>med_time\<close> of one medication. The loop state is the medication (stamped in place), the
  list \<open>tasks\<close> and the flag \<open>user_modified\<close>; each \<open>continue\<close> leaves the state as it is.
  \<open>sent_on\<close> is the test whether a reminder was already sent today: the stamp
  \<open>last_reminder_time\<close> is present, not the empty string, \<open>fromisoformat\<close> reads it (a
  stamp it cannot read counts as absent), and its date is the date of \<open>now_local\<close>.
  \<open>reminder_message\<close> is the message with its inline button that the body builds.
\<close>

definition sent_on :: "pylib \<Rightarrow> datetime \<Rightarrow> medication \<Rightarrow> bool" where
  "sent_on lib now_local med =
     (case last_reminder_time med of
        None \<Rightarrow> False
      | Some last_reminder_str \<Rightarrow>
          last_reminder_str \<noteq> [] \<and>
          (case fromisoformat lib last_reminder_str of
             None \<Rightarrow> False
           | Some last_dt \<Rightarrow> date last_dt = date now_local))"

definition reminder_message ::
  "string \<Rightarrow> string \<Rightarrow> string \<Rightarrow> medication \<Rightarrow> string \<Rightarrow> reminder" where
  "reminder_message cid lang med_name med med_time =
     \<lparr>to_chat = cid,
      text_of = get_msg ''reminder_message'' lang
        [(''medicine'', med_name), (''dosage'', str_of (dosage med)), (''time'', med_time)],
      button = get_msg ''ack_button'' lang [],
      callback_data = ''ack|'' @ med_name @ ''|'' @ med_time\<rparr>"

definition send_reminders_time ::
  "pylib \<Rightarrow> string \<Rightarrow> string \<Rightarrow> datetime \<Rightarrow> string \<Rightarrow> string \<Rightarrow> (string \<rightharpoonup> string) \<Rightarrow>
     medication \<times> reminder list \<times> bool \<Rightarrow> string \<Rightarrow> medication \<times> reminder list \<times> bool" where
  "send_reminders_time lib cid lang now_local today_str med_name acks s med_time =
     (case s of (med, tasks, user_modified) \<Rightarrow>
        if acks med_time = Some today_str then s
        else if sent_on lib now_local med then s
        else (case strptime_HM lib med_time of
                None \<Rightarrow> s
              | Some (h, m) \<Rightarrow>
                  (let scheduled_dt = now_local\<lparr>hour := h, minute := m, second := 0,
                                                microsecond := 0\<rparr>
                   in if dt_less now_local scheduled_dt then s
                      else (med\<lparr>last_reminder_time := Some (isoformat lib now_local)\<rparr>,
                            tasks @ [reminder_message cid lang med_name med med_time],
                            True))))"

text \<open>
  The body of the loop over the medications of one user: the name and the
  \<open>acknowledged\<close> dictionary are read once, then the fire times are run through in order.
  \<open>seen\<close> are the medications already processed.
\<close>

definition send_reminders_med ::
  "pylib \<Rightarrow> string \<Rightarrow> string \<Rightarrow> datetime \<Rightarrow> string \<Rightarrow>
     medication list \<times> reminder list \<times> bool \<Rightarrow> medication \<Rightarrow>
     medication list \<times> reminder list \<times> bool" where
  "send_reminders_med lib cid lang now_local today_str s med =
     (case s of (seen, tasks, user_modified) \<Rightarrow>
        (let med_name = getd (name med) [];
             acks = getd (acknowledged med) Map.empty
         in case foldl (send_reminders_time lib cid lang now_local today_str med_name acks)
                   (med, tasks, user_modified) (getd (times' med) []) of
              (med', tasks', user_modified') \<Rightarrow> (seen @ [med'], tasks', user_modified')))"

text \<open>
  The loop over the scanned users. A user whose time zone does not resolve, and for whom
  \<open>UTC\<close> does not resolve either, raises out of the loop: the table keeps the writes made
  so far and the error is returned with them.
\<close>

fun send_reminders_users ::
  "pylib \<Rightarrow> datetime \<Rightarrow> store \<Rightarrow> reminder list \<Rightarrow> user list \<Rightarrow>
     store \<times> reminder list \<times> error option" where
  "send_reminders_users lib now_utc st tasks [] = (st, tasks, None)"
| "send_reminders_users lib now_utc st tasks (user # users) =
     (let cid = chat_id user;
          tz_str = getd (timezone user) ''UTC'';
          meds = getd (medications user) [];
          lang = getd (language user) ''ru''
      in case resolve_tz lib tz_str of
           Inl e \<Rightarrow> (st, tasks, Some e)
         | Inr tz \<Rightarrow>
             (let now_local = tz now_utc;
                  today_str = strftime_Ymd lib now_local
              in case foldl (send_reminders_med lib cid lang now_local today_str)
                        ([], tasks, False) meds of
                   (meds', tasks', user_modified) \<Rightarrow>
                     send_reminders_users lib now_utc
                       (if user_modified
                        then save_user_data st (user\<lparr>medications := Some meds'\<rparr>)
                        else st)
                       tasks' users))"

text \<open>
  \<open>send_reminders_async\<close>: scan the table, run the loop, then send the collected messages
  (\<open>asyncio.gather\<close>). The result is the table afterwards, the messages handed to the
  messenger, and the error when the loop raised, in which case nothing is sent.
\<close>

definition send_reminders_async ::
  "pylib \<Rightarrow> datetime \<Rightarrow> store \<Rightarrow> store \<times> reminder list \<times> error option" where
  "send_reminders_async lib now_utc st =
     (case send_reminders_users lib now_utc st [] (items st) of
        (st', tasks, None) \<Rightarrow> (st', tasks, None)
      | (st', tasks, Some e) \<Rightarrow> (st', [], Some e))"

section \<open>An instance of the library\<close>

text \<open>
  To run the handlers on concrete inputs the library parameters need values. \<open>stdlib\<close>
  gives them on ASCII strings, with the one zone \<open>UTC\<close> in the zone database and
  timestamps in the layout \<open>isoformat\<close> prints, \<open>YYYY-MM-DDTHH:MM:SS[.ffffff][+HH:MM]\<close>.
\<close>

definition lower_char :: "char \<Rightarrow> char" where
  "lower_char c =
     (case map_of (zip ''ABCDEFGHIJKLMNOPQRSTUVWXYZ'' ''abcdefghijklmnopqrstuvwxyz'') c of
        None \<Rightarrow> c
      | Some l \<Rightarrow> l)"

definition digit :: "nat \<Rightarrow> char" where
  "digit n = ''0123456789'' ! (n mod 10)"

definition fmt2 :: "nat \<Rightarrow> string" where
  "fmt2 n = [digit (n div 10), digit n]"

definition fmt4 :: "nat \<Rightarrow> string" where
  "fmt4 n = [digit (n div 1000), digit (n div 100), digit (n div 10), digit n]"

definition fmt6 :: "nat \<Rightarrow> string" where
  "fmt6 n = [digit (n div 100000), digit (n div 10000), digit (n div 1000),
             digit (n div 100), digit (n div 10), digit n]"

definition digit_val :: "char \<Rightarrow> nat option" where
  "digit_val c = map_of (zip ''0123456789'' [0, 1, 2, 3, 4, 5, 6, 7, 8, 9]) c"

text \<open>The value of a non-empty string of decimal digits.\<close>

fun digits_val :: "nat \<Rightarrow> string \<Rightarrow> nat option" where
  "digits_val acc [] = Some acc"
| "digits_val acc (c # cs) =
     (case digit_val c of None \<Rightarrow> None | Some d \<Rightarrow> digits_val (10 * acc + d) cs)"

definition num :: "string \<Rightarrow> nat option" where
  "num s = (if s = [] then None else digits_val 0 s)"

text \<open>\<open>%H:%M\<close>: one or two digits below 24, a colon, one or two digits below 60.\<close>

definition std_strptime_HM :: "string \<Rightarrow> (nat \<times> nat) option" where
  "std_strptime_HM s =
     (case split_str CHR '':'' s of
        [hs, ms] \<Rightarrow>
          (if length hs \<le> 2 \<and> length ms \<le> 2
           then (case (num hs, num ms) of
                   (Some h, Some m) \<Rightarrow> if h < 24 \<and> m < 60 then Some (h, m) else None
                 | _ \<Rightarrow> None)
           else None)
      | _ \<Rightarrow> None)"

definition std_strftime_Ymd :: "datetime \<Rightarrow> string" where
  "std_strftime_Ymd d = fmt4 (year d) @ ''-'' @ fmt2 (month d) @ ''-'' @ fmt2 (day d)"

definition fmt_offset :: "int option \<Rightarrow> string" where
  "fmt_offset off =
     (case off of
        None \<Rightarrow> []
      | Some k \<Rightarrow> (if k < 0 then ''-'' else ''+'')
                    @ fmt2 (nat \<bar>k\<bar> div 60) @ '':'' @ fmt2 (nat \<bar>k\<bar> mod 60))"

definition std_isoformat :: "datetime \<Rightarrow> string" where
  "std_isoformat d =
     fmt4 (year d) @ ''-'' @ fmt2 (month d) @ ''-'' @ fmt2 (day d) @ ''T''
       @ fmt2 (hour d) @ '':'' @ fmt2 (minute d) @ '':'' @ fmt2 (second d)
       @ (if microsecond d = 0 then [] else ''.'' @ fmt6 (microsecond d))
       @ fmt_offset (utcoffset d)"

text \<open>The offset suffix: empty for a naive value, else a sign, \<open>HH\<close>, a colon and \<open>MM\<close>.\<close>

definition parse_offset :: "string \<Rightarrow> int option option" where
  "parse_offset s =
     (if s = [] then Some None
      else if length s = 6 \<and> s ! 0 \<in> {CHR ''+'', CHR ''-''} \<and> s ! 3 = CHR '':''
      then (case (num (take 2 (drop 1 s)), num (drop 4 s)) of
              (Some h, Some m) \<Rightarrow>
                if h < 24 \<and> m < 60
                then Some (Some ((if s ! 0 = CHR ''-'' then - 1 else 1) * int (60 * h + m)))
                else None
            | _ \<Rightarrow> None)
      else None)"

text \<open>The part after the seconds: an optional fraction of six digits, then the offset.\<close>

definition parse_tail :: "string \<Rightarrow> (nat \<times> int option) option" where
  "parse_tail s =
     (if s \<noteq> [] \<and> s ! 0 = CHR ''.''
      then (case (num (take 6 (drop 1 s)), parse_offset (drop 7 s)) of
              (Some us, Some off) \<Rightarrow> if length s \<ge> 7 then Some (us, off) else None
            | _ \<Rightarrow> None)
      else (case parse_offset s of Some off \<Rightarrow> Some (0, off) | None \<Rightarrow> None))"

definition std_fromisoformat :: "string \<Rightarrow> datetime option" where
  "std_fromisoformat s =
     (if length s \<ge> 19 \<and> s ! 4 = CHR ''-'' \<and> s ! 7 = CHR ''-'' \<and> s ! 10 = CHR ''T''
         \<and> s ! 13 = CHR '':'' \<and> s ! 16 = CHR '':''
      then (case (num (take 4 s), num (take 2 (drop 5 s)), num (take 2 (drop 8 s)),
                  num (take 2 (drop 11 s)), num (take 2 (drop 14 s)),
                  num (take 2 (drop 17 s)), parse_tail (drop 19 s)) of
              (Some y, Some mo, Some d, Some h, Some mi, Some sec, Some (us, off)) \<Rightarrow>
                if 1 \<le> y \<and> 1 \<le> mo \<and> mo \<le> 12 \<and> 1 \<le> d \<and> d \<le> 31
                   \<and> h < 24 \<and> mi < 60 \<and> sec < 60
                then Some \<lparr>year = y, month = mo, day = d, hour = h, minute = mi,
                           second = sec, microsecond = us, utcoffset = off\<rparr>
                else None
            | _ \<Rightarrow> None)
      else None)"

text \<open>
  The zone \<open>UTC\<close>: the naive reading of the UTC clock keeps its fields and becomes aware
  with offset zero.
\<close>

definition utc :: tzinfo where
  "utc d = d\<lparr>utcoffset := Some 0\<rparr>"

definition std_ZoneInfo :: "string \<Rightarrow> tzinfo option" where
  "std_ZoneInfo key = (if key = ''UTC'' then Some utc else None)"

definition stdlib :: pylib where
  "stdlib = \<lparr>lower = map lower_char, ZoneInfo = std_ZoneInfo,
             strptime_HM = std_strptime_HM, strftime_Ymd = std_strftime_Ymd,
             isoformat = std_isoformat, fromisoformat = std_fromisoformat\<rparr>"

section \<open>Predicates of the statements\<close>

text \<open>
  \<open>is_due\<close>: the fire time is not acknowledged for today, no reminder of the medication is
  dated today, and the fire time reads as an hour and a minute that the local clock has
  reached.
\<close>

definition is_due ::
  "pylib \<Rightarrow> datetime \<Rightarrow> string \<Rightarrow> (string \<rightharpoonup> string) \<Rightarrow> medication \<Rightarrow> string \<Rightarrow> bool" where
  "is_due lib now_local today_str acks med med_time \<longleftrightarrow>
     acks med_time \<noteq> Some today_str \<and> \<not> sent_on lib now_local med \<and>
     (case strptime_HM lib med_time of
        None \<Rightarrow> False
      | Some (h, m) \<Rightarrow> h < hour now_local \<or> h = hour now_local \<and> m \<le> minute now_local)"


text \<open>The medication stamped with a reminder at \<open>now_local\<close>.\<close>

definition stamped :: "pylib \<Rightarrow> datetime \<Rightarrow> medication \<Rightarrow> medication" where
  "stamped lib now_local med = med\<lparr>last_reminder_time := Some (isoformat lib now_local)\<rparr>"

text \<open>
  \<open>name_key\<close> is the key \<open>med.get("name", "").lower()\<close> under which deletion and
  acknowledgment look a medication up. \<open>names_unique\<close>: no two medications of a list have
  the same key, that is, names equal up to case. \<open>table_names_unique\<close>: this holds for
  the medication list of every item of the table.
\<close>

definition name_key :: "pylib \<Rightarrow> medication \<Rightarrow> string" where
  "name_key lib med = lower lib (getd (name med) [])"

definition names_unique :: "pylib \<Rightarrow> medication list \<Rightarrow> bool" where
  "names_unique lib meds \<longleftrightarrow> distinct (map (name_key lib) meds)"

definition table_names_unique :: "pylib \<Rightarrow> store \<Rightarrow> bool" where
  "table_names_unique lib st \<longleftrightarrow>
     list_all (\<lambda>u. names_unique lib (getd (medications u) [])) (items st)"

section \<open>Example data\<close>

text \<open>
  Scenario A of the specification: a user in \<open>UTC\<close> with the medication Aspirin, 500mg, at
  09:00, and the UTC clock on 2024-01-01. \<open>pills\<close> is a medication with three fire times;
  the second user has both medications and a time zone that does not resolve. \<open>table0\<close>
  holds both users, \<open>table_A\<close> the first alone.
\<close>

definition clock :: "nat \<Rightarrow> nat \<Rightarrow> datetime" where
  "clock h m = \<lparr>year = 2024, month = 1, day = 1, hour = h, minute = m, second = 0,
               microsecond = 0, utcoffset = None\<rparr>"

definition aspirin :: medication where
  "aspirin = \<lparr>name = Some ''Aspirin'', dosage = Some ''500mg'', times' = Some [''09:00''],
              acknowledged = Some Map.empty, last_reminder_time = None\<rparr>"

definition pills :: medication where
  "pills = \<lparr>name = Some ''Pills'', dosage = Some ''1'',
            times' = Some [''22:30'', ''08:00'', ''20:00''],
            acknowledged = Some Map.empty, last_reminder_time = None\<rparr>"

definition alice :: user where
  "alice = \<lparr>chat_id = ''1'', timezone = Some ''UTC'', language = Some ''en'',
            medications = Some [aspirin]\<rparr>"

definition bob :: user where
  "bob = \<lparr>chat_id = ''2'', timezone = Some ''Mars/Base'', language = Some ''ru'',
          medications = Some [pills, aspirin]\<rparr>"

definition table0 :: store where
  "table0 = \<lparr>items = [alice, bob], put_log = []\<rparr>"

definition table_A :: store where
  "table_A = \<lparr>items = [alice], put_log = []\<rparr>"

section \<open>Lemmas on the sweep\<close>

lemma dt_less_scheduled:
  "dt_less now (now\<lparr>hour := h, minute := m, second := 0, microsecond := 0\<rparr>)
     \<longleftrightarrow> hour now < h \<or> (hour now = h \<and> minute now < m)"
  by (auto simp: dt_less_def)

lemma time_step:
  "send_reminders_time lib cid lang now today nm acks (med, tasks, um) t =
     (if is_due lib now today acks med t
      then (stamped lib now med, tasks @ [reminder_message cid lang nm med t], True)
      else (med, tasks, um))"
  by (auto simp: send_reminders_time_def is_due_def stamped_def dt_less_scheduled
           split: option.splits)







text \<open>The definitions to unfold when a handler is run on the example data.\<close>

lemmas std_defs = stdlib_def std_ZoneInfo_def utc_def std_strftime_Ymd_def std_strptime_HM_def
  std_isoformat_def std_fromisoformat_def parse_tail_def parse_offset_def fmt_offset_def
  fmt2_def fmt4_def fmt6_def digit_def num_def digit_val_def lower_char_def clock_def

lemmas sweep_defs = send_reminders_async_def send_reminders_med_def send_reminders_time_def
  sent_on_def dt_less_def date_def resolve_tz_def save_user_data_def getd_def Let_def

section \<open>Lemmas on the table and the acknowledgment loop\<close>

lemma find_put_item:
  "chat_id u = k \<Longrightarrow> find (\<lambda>x. chat_id x = k) (put_item u xs) = Some u"
  by (induction xs) auto

lemma put_item_idem: "put_item u (put_item u xs) = put_item u xs"
  by (induction xs) auto

lemma chat_id_get_user_data: "chat_id (get_user_data st cid) = cid"
  by (auto simp: get_user_data_def get_item_def Let_def split: option.splits
           dest: find_Some_iff [THEN iffD1])

lemma language_get_user_data: "language (get_user_data st cid) \<noteq> None"
  by (auto simp: get_user_data_def Let_def split: option.splits)

lemma get_user_data_save:
  "chat_id u = cid \<Longrightarrow> language u \<noteq> None \<Longrightarrow> get_user_data (save_user_data st u) cid = u"
  by (simp add: get_user_data_def save_user_data_def get_item_def find_put_item)

lemma save_twice: "items (save_user_data (save_user_data st u) u) = items (save_user_data st u)"
  by (simp add: save_user_data_def put_item_idem)

lemma ack_loop_not_found:
  "\<forall>m\<in>set meds. \<not> (lower lib (getd (name m) []) = lower lib n \<and> t \<in> set (getd (times' m) []))
   \<Longrightarrow> ack_loop lib n t d meds = (meds, False)"
  by (induction meds) auto

lemma ack_loop_found:
  "\<forall>m\<in>set pre. \<not> (lower lib (getd (name m) []) = lower lib n \<and> t \<in> set (getd (times' m) []))
   \<Longrightarrow> lower lib (getd (name med) []) = lower lib n \<Longrightarrow> t \<in> set (getd (times' med) [])
   \<Longrightarrow> ack_loop lib n t d (pre @ med # post) =
        (pre @ med\<lparr>acknowledged := Some ((getd (acknowledged med) Map.empty)(t \<mapsto> d))\<rparr> # post,
         True)"
  by (induction pre) auto

lemma ack_loop_idem:
  "ack_loop lib n t d (fst (ack_loop lib n t d meds)) = ack_loop lib n t d meds"
  by (induction meds) (auto simp: getd_def split: prod.splits)

lemma ack_loop_names: "map name (fst (ack_loop lib n t d meds)) = map name meds"
  by (induction meds) (auto split: prod.splits)

lemma length_filter_eq: "length (filter P xs) = length xs \<longleftrightarrow> (\<forall>x\<in>set xs. P x)"
proof (induction xs)
  case Nil
  show ?case by simp
next
  case (Cons x xs)
  have "length (filter P xs) \<noteq> Suc (length xs)"
    using length_filter_le [of P xs] by linarith
  with Cons show ?case by simp
qed

section \<open>Lemmas on the loops of the sweep\<close>

text \<open>What the loops of the sweep keep and what they add, whatever the library does.\<close>

lemma times_loop_shape:
  "\<exists>med' new. foldl (send_reminders_time lib cid lang now today nm acks) (med, tasks, um) ts
       = (med', tasks @ new, um \<or> new \<noteq> [])
     \<and> name med' = name med \<and> (\<forall>r\<in>set new. to_chat r = cid)"
proof (induction ts arbitrary: med tasks um)
  case Nil
  show ?case by simp
next
  case (Cons t ts)
  show ?case
  proof (cases "is_due lib now today acks med t")
    case False
    with Cons [of med tasks um] show ?thesis by (simp add: time_step)
  next
    case True
    from Cons [of "stamped lib now med" "tasks @ [reminder_message cid lang nm med t]" True]
    obtain med' new where
      "foldl (send_reminders_time lib cid lang now today nm acks)
         (stamped lib now med, tasks @ [reminder_message cid lang nm med t], True) ts
       = (med', (tasks @ [reminder_message cid lang nm med t]) @ new, True)"
      "name med' = name (stamped lib now med)" "\<forall>r\<in>set new. to_chat r = cid"
      by auto
    with True show ?thesis
      by (intro exI [of _ med'] exI [of _ "reminder_message cid lang nm med t # new"])
         (simp add: time_step stamped_def reminder_message_def)
  qed
qed

lemma meds_loop_shape:
  "\<exists>meds' new. foldl (send_reminders_med lib cid lang now today) (seen, tasks, um) meds
       = (seen @ meds', tasks @ new, um \<or> new \<noteq> [])
     \<and> map name meds' = map name meds \<and> (\<forall>r\<in>set new. to_chat r = cid)"
proof (induction meds arbitrary: seen tasks um)
  case Nil
  show ?case by simp
next
  case (Cons med meds)
  from times_loop_shape [of lib cid lang now today "getd (name med) []"
      "getd (acknowledged med) Map.empty" med tasks um "getd (times' med) []"]
  obtain med' new1 where 1:
    "send_reminders_med lib cid lang now today (seen, tasks, um) med
       = (seen @ [med'], tasks @ new1, um \<or> new1 \<noteq> [])"
    "name med' = name med" "\<forall>r\<in>set new1. to_chat r = cid"
    by (auto simp: send_reminders_med_def)
  from Cons [of "seen @ [med']" "tasks @ new1" "um \<or> new1 \<noteq> []"]
  obtain meds' new2 where 2:
    "foldl (send_reminders_med lib cid lang now today)
        (seen @ [med'], tasks @ new1, um \<or> new1 \<noteq> []) meds
       = ((seen @ [med']) @ meds', (tasks @ new1) @ new2, (um \<or> new1 \<noteq> []) \<or> new2 \<noteq> [])"
    "map name meds' = map name meds" "\<forall>r\<in>set new2. to_chat r = cid"
    by auto
  from 1 2 show ?case
    by (intro exI [of _ "med' # meds'"] exI [of _ "new1 @ new2"]) auto
qed

lemma users_loop_shape:
  "\<exists>ws new. put_log (fst (send_reminders_users lib now st tasks us)) = put_log st @ ws
     \<and> items (fst (send_reminders_users lib now st tasks us)) = foldl (\<lambda>xs w. put_item w xs) (items st) ws
     \<and> fst (snd (send_reminders_users lib now st tasks us)) = tasks @ new
     \<and> chat_id ` set ws = to_chat ` set new
     \<and> chat_id ` set ws \<subseteq> chat_id ` set us
     \<and> (distinct (map chat_id us) \<longrightarrow> distinct (map chat_id ws))"
proof (induction us arbitrary: st tasks)
  case Nil
  show ?case by simp
next
  case (Cons u us)
  show ?case
  proof (cases "resolve_tz lib (getd (timezone u) ''UTC'')")
    case (Inl e)
    then show ?thesis by simp
  next
    case (Inr tz)
    from meds_loop_shape [of lib "chat_id u" "getd (language u) ''ru''" "tz now"
        "strftime_Ymd lib (tz now)" "[]" tasks False "getd (medications u) []"]
    obtain meds' new1 where 1:
      "foldl (send_reminders_med lib (chat_id u) (getd (language u) ''ru'') (tz now)
          (strftime_Ymd lib (tz now))) ([], tasks, False) (getd (medications u) [])
        = (meds', tasks @ new1, new1 \<noteq> [])"
      "\<forall>r\<in>set new1. to_chat r = chat_id u"
      by auto
    define st1 where "st1 = (if new1 \<noteq> [] then save_user_data st (u\<lparr>medications := Some meds'\<rparr>) else st)"
    define w1 where "w1 = (if new1 \<noteq> [] then [u\<lparr>medications := Some meds'\<rparr>] else [])"
    have step: "send_reminders_users lib now st tasks (u # us)
        = send_reminders_users lib now st1 (tasks @ new1) us"
      using Inr 1(1) by (simp add: st1_def)
    have log1: "put_log st1 = put_log st @ w1" "items st1 = foldl (\<lambda>xs w. put_item w xs) (items st) w1"
      by (simp_all add: st1_def w1_def save_user_data_def)
    have ids1: "chat_id ` set w1 = to_chat ` set new1"
    proof (cases "new1 = []")
      case True
      then show ?thesis by (simp add: w1_def)
    next
      case False
      then obtain r rs where "new1 = r # rs" by (cases new1) auto
      with 1(2) show ?thesis by (auto simp: w1_def)
    qed
    have sub1: "chat_id ` set w1 \<subseteq> {chat_id u}" by (auto simp: w1_def)
    from Cons [of st1 "tasks @ new1"]
    obtain ws new where IH:
      "put_log (fst (send_reminders_users lib now st1 (tasks @ new1) us)) = put_log st1 @ ws"
      "items (fst (send_reminders_users lib now st1 (tasks @ new1) us))
         = foldl (\<lambda>xs w. put_item w xs) (items st1) ws"
      "fst (snd (send_reminders_users lib now st1 (tasks @ new1) us)) = (tasks @ new1) @ new"
      "chat_id ` set ws = to_chat ` set new"
      "chat_id ` set ws \<subseteq> chat_id ` set us"
      "distinct (map chat_id us) \<longrightarrow> distinct (map chat_id ws)"
      by blast
    have dist: "distinct (map chat_id (u # us)) \<longrightarrow> distinct (map chat_id (w1 @ ws))"
      using IH(5,6) sub1 by (auto simp: w1_def)
    have c1: "put_log (fst (send_reminders_users lib now st1 (tasks @ new1) us))
        = put_log st @ (w1 @ ws)"
      using IH(1) log1(1) by simp
    have c2: "items (fst (send_reminders_users lib now st1 (tasks @ new1) us))
        = foldl (\<lambda>xs w. put_item w xs) (items st) (w1 @ ws)"
      using IH(2) log1(2) by simp
    have c3: "fst (snd (send_reminders_users lib now st1 (tasks @ new1) us))
        = tasks @ (new1 @ new)"
      using IH(3) by simp
    have c4: "chat_id ` set (w1 @ ws) = to_chat ` set (new1 @ new)"
      using IH(4) ids1 by (simp add: image_Un)
    have c5: "chat_id ` set (w1 @ ws) \<subseteq> chat_id ` set (u # us)"
      using IH(5) sub1 by auto
    show ?thesis
      unfolding step using c1 c2 c3 c4 c5 dist by blast
  qed
qed

lemma users_loop_no_raise:
  "ZoneInfo lib ''UTC'' = Some z \<Longrightarrow> snd (snd (send_reminders_users lib now st tasks us)) = None"
proof (induction us arbitrary: st tasks)
  case Nil
  show ?case by simp
next
  case (Cons u us)
  then show ?case
    by (auto simp: resolve_tz_def Let_def split: option.splits prod.splits)
qed

text \<open>The handlers use the zone database through \<open>resolve_tz\<close> only.\<close>

lemma time_zone_free:
  "send_reminders_time (lib\<lparr>ZoneInfo := f\<rparr>) = send_reminders_time lib"
  by (intro ext) (simp add: send_reminders_time_def sent_on_def split: prod.splits option.splits)

lemma med_zone_free:
  "send_reminders_med (lib\<lparr>ZoneInfo := f\<rparr>) = send_reminders_med lib"
  by (intro ext) (simp add: send_reminders_med_def time_zone_free)

lemma users_zone_free:
  assumes "\<And>s. resolve_tz (lib\<lparr>ZoneInfo := f\<rparr>) s = resolve_tz lib s"
  shows "send_reminders_users (lib\<lparr>ZoneInfo := f\<rparr>) now st tasks us
       = send_reminders_users lib now st tasks us"
proof (induction us arbitrary: st tasks)
  case Nil
  show ?case by simp
next
  case (Cons u us)
  show ?case
    by (simp add: assms med_zone_free Cons split: sum.splits prod.splits)
qed

lemma ack_loop_zone_free:
  "ack_loop (lib\<lparr>ZoneInfo := f\<rparr>) n t d meds = ack_loop lib n t d meds"
  by (induction meds) simp_all

lemma ack_zone_free:
  assumes "\<And>s. resolve_tz (lib\<lparr>ZoneInfo := f\<rparr>) s = resolve_tz lib s"
  shows "callback_acknowledge (lib\<lparr>ZoneInfo := f\<rparr>) now st cid query_data
       = callback_acknowledge lib now st cid query_data"
  by (simp add: callback_acknowledge_def assms ack_loop_zone_free Let_def
        split: list.splits sum.splits prod.splits)

lemma resolve_tz_alias:
  assumes "ZoneInfo lib bad = None" and "ZoneInfo lib ''UTC'' = Some z"
  shows "resolve_tz (lib\<lparr>ZoneInfo := (ZoneInfo lib)(bad \<mapsto> z)\<rparr>) s = resolve_tz lib s"
  using assms by (auto simp: resolve_tz_def split: option.splits)

lemma resolve_tz_total:
  "ZoneInfo lib ''UTC'' = Some z \<Longrightarrow> \<exists>tz. resolve_tz lib s = Inr tz"
  by (simp add: resolve_tz_def split: option.splits)

lemma ack_no_raise:
  assumes "ZoneInfo lib ''UTC'' = Some z"
  shows "\<exists>r. callback_acknowledge lib now st cid query_data = Inr r"
proof -
  from resolve_tz_total [OF assms]
  obtain tz where "resolve_tz lib (getd (timezone (get_user_data st cid)) ''UTC'') = Inr tz"
    by blast
  then show ?thesis
    by (simp add: callback_acknowledge_def Let_def split: list.splits prod.splits)
qed

section \<open>Lemmas on the uniqueness of names\<close>

lemma set_put_item: "set (put_item u xs) \<subseteq> insert u (set xs)"
  by (induction xs) auto

lemma in_put_item: "u \<in> set (put_item u xs)"
  by (induction xs) auto

lemma unique_save:
  "table_names_unique lib st \<Longrightarrow>
   table_names_unique lib (save_user_data st u) \<longleftrightarrow> names_unique lib (getd (medications u) [])"
  using set_put_item [of u "items st"] in_put_item [of u "items st"]
  by (auto simp: table_names_unique_def save_user_data_def list_all_iff)

lemma medications_get_user_data:
  "table_names_unique lib st \<Longrightarrow>
   names_unique lib (getd (medications (get_user_data st cid)) [])"
  by (auto simp: table_names_unique_def get_user_data_def get_item_def list_all_iff Let_def
        names_unique_def getd_def
        split: option.splits dest!: find_Some_iff [THEN iffD1] intro: nth_mem)

lemma names_unique_cong:
  assumes "map name xs = map name ys"
  shows "names_unique lib xs = names_unique lib ys"
proof -
  have key: "name_key lib = (\<lambda>n. lower lib (getd n [])) \<circ> name"
    by (rule ext) (simp add: name_key_def)
  have "map (name_key lib) xs = map (\<lambda>n. lower lib (getd n [])) (map name xs)"
    unfolding key by simp
  also have "\<dots> = map (\<lambda>n. lower lib (getd n [])) (map name ys)"
    using assms by simp
  also have "\<dots> = map (name_key lib) ys"
    unfolding key by simp
  finally show ?thesis by (simp add: names_unique_def)
qed

lemma users_loop_unique:
  "table_names_unique lib' st \<Longrightarrow> list_all (\<lambda>u. names_unique lib' (getd (medications u) [])) us
   \<Longrightarrow> table_names_unique lib' (fst (send_reminders_users lib now st tasks us))"
proof (induction us arbitrary: st tasks)
  case Nil
  then show ?case by simp
next
  case (Cons u us)
  show ?case
  proof (cases "resolve_tz lib (getd (timezone u) ''UTC'')")
    case (Inl e)
    with Cons.prems show ?thesis by simp
  next
    case (Inr tz)
    from meds_loop_shape [of lib "chat_id u" "getd (language u) ''ru''" "tz now"
        "strftime_Ymd lib (tz now)" "[]" tasks False "getd (medications u) []"]
    obtain meds' new1 where 1:
      "foldl (send_reminders_med lib (chat_id u) (getd (language u) ''ru'') (tz now)
          (strftime_Ymd lib (tz now))) ([], tasks, False) (getd (medications u) [])
        = (meds', tasks @ new1, new1 \<noteq> [])"
      "map name meds' = map name (getd (medications u) [])"
      by auto
    define st1 where "st1 = (if new1 \<noteq> [] then save_user_data st (u\<lparr>medications := Some meds'\<rparr>) else st)"
    have step: "send_reminders_users lib now st tasks (u # us)
        = send_reminders_users lib now st1 (tasks @ new1) us"
      using Inr 1(1) by (simp add: st1_def)
    have "names_unique lib' meds'"
      using Cons.prems(2) names_unique_cong [OF 1(2), of lib'] by simp
    then have "table_names_unique lib' st1"
      using Cons.prems(1) by (simp add: st1_def unique_save getd_def)
    moreover have "list_all (\<lambda>u. names_unique lib' (getd (medications u) [])) us"
      using Cons.prems(2) by simp
    ultimately show ?thesis unfolding step by (rule Cons.IH)
  qed
qed

lemma sweep_unique:
  assumes "table_names_unique lib' st"
  shows "table_names_unique lib' (fst (send_reminders_async lib now st))"
proof -
  have "table_names_unique lib' (fst (send_reminders_users lib now st [] (items st)))"
    using assms by (intro users_loop_unique) (simp_all add: table_names_unique_def)
  moreover have "fst (send_reminders_async lib now st)
      = fst (send_reminders_users lib now st [] (items st))"
    by (simp add: send_reminders_async_def split: prod.splits option.splits)
  ultimately show ?thesis by simp
qed

lemma delete_unique:
  "table_names_unique lib st \<Longrightarrow> table_names_unique lib (snd (delete_medicine lib st cid args))"
  using medications_get_user_data [of lib st cid]
  by (auto simp: delete_medicine_def Let_def unique_save names_unique_def getd_def
        distinct_map_filter split: list.splits)

lemma set_timezone_unique:
  "table_names_unique lib st \<Longrightarrow> table_names_unique lib (snd (set_timezone st cid args))"
  using medications_get_user_data [of lib st cid]
  by (auto simp: set_timezone_def Let_def unique_save split: list.splits)

lemma set_language_unique:
  "table_names_unique lib st \<Longrightarrow> table_names_unique lib (snd (set_language lib' st cid args))"
  using medications_get_user_data [of lib st cid]
  by (auto simp: set_language_def Let_def unique_save split: list.splits)

lemma ack_unique:
  assumes "table_names_unique lib st"
      and "callback_acknowledge lib' now st cid query_data = Inr (r, st')"
  shows "table_names_unique lib st'"
proof (cases "st' = st")
  case True
  with assms(1) show ?thesis by simp
next
  case False
  define ud where "ud = get_user_data st cid"
  from False assms(2) obtain n t d meds' where
    loop: "ack_loop lib' n t d (getd (medications ud) []) = (meds', True)"
    and st': "st' = save_user_data st (ud\<lparr>medications := Some meds'\<rparr>)"
    by (auto simp: callback_acknowledge_def Let_def ud_def
          split: list.splits sum.splits prod.splits if_splits)
  have "map name meds' = map name (getd (medications ud) [])"
    using ack_loop_names [of lib' n t d "getd (medications ud) []"] loop by simp
  then have "names_unique lib meds'"
    using names_unique_cong [of meds' "getd (medications ud) []" lib]
      medications_get_user_data [OF assms(1), of cid]
    by (simp add: ud_def)
  then show ?thesis
    using assms(1) by (simp add: st' unique_save getd_def)
qed

lemma add_unique:
  assumes "table_names_unique lib st"
      and "add_medicine st cid (n # d # t # ts) = Inr (r, st')"
  shows "table_names_unique lib st' \<longleftrightarrow>
         lower lib n \<notin> name_key lib ` set (getd (medications (get_user_data st cid)) [])"
  using assms medications_get_user_data [OF assms(1), of cid]
  by (auto simp: add_medicine_def Let_def unique_save names_unique_def name_key_def getd_def
        split: option.splits)

lemma add_short:
  "length args < 3 \<Longrightarrow> add_medicine st cid args = Inr (r, st') \<Longrightarrow> st' = st"
  by (auto simp: add_medicine_def Let_def split: list.splits)

section \<open>The claims\<close>

subsection \<open>When a fire time is due\<close>

text \<open>
  C1. In a sweep, the body of the loop over the fire times of a medication dispatches a
  reminder for the fire time (appends it to \<open>tasks\<close>, stamps the medication and sets the
  flag) if and only if (1) the date acknowledged for the fire time is not today's local
  date, (2) the medication's \<open>last_reminder_time\<close>, as it stands when the fire time is
  examined, is not a readable stamp dated today, and (3) the fire time reads as an hour
  and a minute that the local clock has reached; otherwise it leaves the state as it is.
  Condition (3) has no upper bound: a fire time that was missed stays due until the end of
  the local day.
\<close>

theorem fire_time_dispatched_iff_due:
  "send_reminders_time lib cid lang now_local (strftime_Ymd lib now_local) med_name
       (getd (acknowledged med) Map.empty) (med, tasks, user_modified) med_time =
     (if getd (acknowledged med) Map.empty med_time \<noteq> Some (strftime_Ymd lib now_local)
         \<and> \<not> (\<exists>s d. last_reminder_time med = Some s \<and> s \<noteq> [] \<and> fromisoformat lib s = Some d
                    \<and> date d = date now_local)
         \<and> (\<exists>h m. strptime_HM lib med_time = Some (h, m)
                  \<and> (h < hour now_local \<or> h = hour now_local \<and> m \<le> minute now_local))
      then (med\<lparr>last_reminder_time := Some (isoformat lib now_local)\<rparr>,
            tasks @ [reminder_message cid lang med_name med med_time], True)
      else (med, tasks, user_modified))"
  by (auto simp: time_step is_due_def sent_on_def stamped_def split: option.splits)

text \<open>
  At 23:59 the fire time 09:00 of Aspirin is still due; at 08:59 it is not yet.
\<close>

theorem fire_time_dispatched_iff_due_witness:
  "send_reminders_time stdlib ''1'' ''en'' (utc (clock 23 59)) ''2024-01-01'' ''Aspirin''
       Map.empty (aspirin, [], False) ''09:00'' =
     (aspirin\<lparr>last_reminder_time := Some ''2024-01-01T23:59:00+00:00''\<rparr>,
      [reminder_message ''1'' ''en'' ''Aspirin'' aspirin ''09:00''], True)
   \<and> send_reminders_time stdlib ''1'' ''en'' (utc (clock 8 59)) ''2024-01-01'' ''Aspirin''
       Map.empty (aspirin, [], False) ''09:00'' = (aspirin, [], False)"
  using fire_time_dispatched_iff_due
          [of stdlib "''1''" "''en''" "utc (clock 23 59)" "''Aspirin''" aspirin "[]" False "''09:00''"]
        fire_time_dispatched_iff_due
          [of stdlib "''1''" "''en''" "utc (clock 8 59)" "''Aspirin''" aspirin "[]" False "''09:00''"]
  by (simp add: std_defs aspirin_def getd_def)

subsection \<open>At most one reminder per medication and local day\<close>



text \<open>
  The same on the table, through \<open>save_user_data\<close> and the next scan (Scenario A of the
  specification): the sweep of 08:59 sends nothing and writes nothing, the sweep of 09:00
  sends one reminder and saves the stamped record, and the sweep of 09:05 on the table so
  written sends nothing.
\<close>

lemma scenario_A:
  "send_reminders_async stdlib (clock 8 59) table_A = (table_A, [], None)"
  "send_reminders_async stdlib (clock 9 0) table_A =
     (\<lparr>items = [alice\<lparr>medications := Some
                 [aspirin\<lparr>last_reminder_time := Some ''2024-01-01T09:00:00+00:00''\<rparr>]\<rparr>],
       put_log = [alice\<lparr>medications := Some
                 [aspirin\<lparr>last_reminder_time := Some ''2024-01-01T09:00:00+00:00''\<rparr>]\<rparr>]\<rparr>,
      [reminder_message ''1'' ''en'' ''Aspirin'' aspirin ''09:00''], None)"
  "send_reminders_async stdlib (clock 9 5)
     \<lparr>items = [alice\<lparr>medications := Some
                 [aspirin\<lparr>last_reminder_time := Some ''2024-01-01T09:00:00+00:00''\<rparr>]\<rparr>],
       put_log = [alice\<lparr>medications := Some
                 [aspirin\<lparr>last_reminder_time := Some ''2024-01-01T09:00:00+00:00''\<rparr>]\<rparr>]\<rparr> =
     (\<lparr>items = [alice\<lparr>medications := Some
                 [aspirin\<lparr>last_reminder_time := Some ''2024-01-01T09:00:00+00:00''\<rparr>]\<rparr>],
       put_log = [alice\<lparr>medications := Some
                 [aspirin\<lparr>last_reminder_time := Some ''2024-01-01T09:00:00+00:00''\<rparr>]\<rparr>]\<rparr>,
      [], None)"
  by (simp_all add: sweep_defs table_A_def alice_def aspirin_def std_defs)

subsection \<open>One stamp for all fire times of a medication\<close>



subsection \<open>The acknowledgment handler: found or not found\<close>

text \<open>
  C4. Given callback data \<open>ack|name|time\<close> and a time zone that resolves (if need be to
  \<open>UTC\<close>), the acknowledgment handler matches medications by name without regard to case.
  When no medication has both a matching name and the fire time among its times, it replies
  not-found and returns the table as it was, nothing written. Otherwise it sets
  \<open>acknowledged[time]\<close> of the first such medication to today's local date, leaves every
  other medication as it is, and saves the record.
\<close>

theorem acknowledge_found_or_not:
  fixes lib :: pylib and st :: store and cid :: string
  defines "ud \<equiv> get_user_data st cid"
  defines "meds \<equiv> getd (medications ud) []"
  defines "lang \<equiv> getd (language ud) ''ru''"
  assumes "split_str CHR ''|'' query_data = [''ack'', med_name, med_time]"
      and "resolve_tz lib (getd (timezone ud) ''UTC'') = Inr tz"
  shows "((\<forall>m\<in>set meds. \<not> (lower lib (getd (name m) []) = lower lib med_name
                              \<and> med_time \<in> set (getd (times' m) [])))
          \<longrightarrow> callback_acknowledge lib now_utc st cid query_data
                = Inr (get_msg ''medicine_for_ack_not_found'' lang [], st))
       \<and> (\<forall>pre med post.
             meds = pre @ med # post
             \<and> (\<forall>m\<in>set pre. \<not> (lower lib (getd (name m) []) = lower lib med_name
                                  \<and> med_time \<in> set (getd (times' m) [])))
             \<and> lower lib (getd (name med) []) = lower lib med_name
             \<and> med_time \<in> set (getd (times' med) [])
          \<longrightarrow> callback_acknowledge lib now_utc st cid query_data
                = Inr (get_msg ''acknowledged_success'' lang [],
                       save_user_data st
                         (ud\<lparr>medications := Some (pre @
                            med\<lparr>acknowledged := Some ((getd (acknowledged med) Map.empty)
                                   (med_time \<mapsto> strftime_Ymd lib (tz now_utc)))\<rparr> # post)\<rparr>)))"
  using assms(4,5) unfolding ud_def meds_def lang_def
  by (auto simp: callback_acknowledge_def Let_def ack_loop_not_found ack_loop_found)

text \<open>
  The second user acknowledges \<open>ASPIRIN\<close> (stored as \<open>Aspirin\<close>, after \<open>Pills\<close>) at 09:00,
  which is found, and at 10:00, which is not a time of Aspirin.
\<close>

theorem acknowledge_found_or_not_witness:
  "callback_acknowledge stdlib (clock 9 30) table0 ''2'' ''ack|ASPIRIN|09:00''
     = Inr (get_msg ''acknowledged_success'' ''ru'' [],
            save_user_data table0
              (bob\<lparr>medications := Some [pills,
                 aspirin\<lparr>acknowledged := Some (Map.empty(''09:00'' \<mapsto> ''2024-01-01''))\<rparr>]\<rparr>))
   \<and> callback_acknowledge stdlib (clock 9 30) table0 ''2'' ''ack|ASPIRIN|10:00''
     = Inr (get_msg ''medicine_for_ack_not_found'' ''ru'' [], table0)"
proof -
  have ud: "get_user_data table0 ''2'' = bob"
    by (simp add: get_user_data_def get_item_def table0_def alice_def bob_def)
  have tz: "resolve_tz stdlib (getd (timezone (get_user_data table0 ''2'')) ''UTC'') = Inr utc"
    by (simp add: ud bob_def getd_def resolve_tz_def stdlib_def std_ZoneInfo_def)
  have s1: "split_str CHR ''|'' ''ack|ASPIRIN|09:00'' = [''ack'', ''ASPIRIN'', ''09:00'']"
    by simp
  have s2: "split_str CHR ''|'' ''ack|ASPIRIN|10:00'' = [''ack'', ''ASPIRIN'', ''10:00'']"
    by simp
  have meds: "getd (medications bob) [] = [pills] @ aspirin # []"
    by (simp add: bob_def getd_def)
  have lang: "getd (language bob) ''ru'' = ''ru''"
    by (simp add: bob_def getd_def)
  have today: "strftime_Ymd stdlib (utc (clock 9 30)) = ''2024-01-01''"
    by (simp add: std_defs)
  have no_pills: "\<forall>m\<in>set [pills]. \<not> (lower stdlib (getd (name m) []) = lower stdlib ''ASPIRIN''
                              \<and> ''09:00'' \<in> set (getd (times' m) []))"
    by (simp add: pills_def getd_def stdlib_def lower_char_def)
  have yes: "lower stdlib (getd (name aspirin) []) = lower stdlib ''ASPIRIN''
                              \<and> ''09:00'' \<in> set (getd (times' aspirin) [])"
    by (simp add: aspirin_def getd_def stdlib_def lower_char_def)
  have none10: "\<forall>m\<in>set (getd (medications bob) []).
       \<not> (lower stdlib (getd (name m) []) = lower stdlib ''ASPIRIN''
                              \<and> ''10:00'' \<in> set (getd (times' m) []))"
    by (simp add: bob_def pills_def aspirin_def getd_def)
  have acks: "getd (acknowledged aspirin) Map.empty = Map.empty"
    by (simp add: aspirin_def getd_def)
  have prem: "getd (medications (get_user_data table0 ''2'')) [] = [pills] @ aspirin # []
      \<and> (\<forall>m\<in>set [pills]. \<not> (lower stdlib (getd (name m) []) = lower stdlib ''ASPIRIN''
                              \<and> ''09:00'' \<in> set (getd (times' m) [])))
      \<and> lower stdlib (getd (name aspirin) []) = lower stdlib ''ASPIRIN''
      \<and> ''09:00'' \<in> set (getd (times' aspirin) [])"
    unfolding ud using meds no_pills yes by blast
  have a: "callback_acknowledge stdlib (clock 9 30) table0 ''2'' ''ack|ASPIRIN|09:00''
     = Inr (get_msg ''acknowledged_success'' ''ru'' [],
            save_user_data table0
              (bob\<lparr>medications := Some [pills,
                 aspirin\<lparr>acknowledged := Some (Map.empty(''09:00'' \<mapsto> ''2024-01-01''))\<rparr>]\<rparr>))"
    using acknowledge_found_or_not [OF s1 tz, of "clock 9 30", THEN conjunct2, rule_format, OF prem]
    unfolding ud lang today acks by simp
  have b: "callback_acknowledge stdlib (clock 9 30) table0 ''2'' ''ack|ASPIRIN|10:00''
     = Inr (get_msg ''medicine_for_ack_not_found'' ''ru'' [], table0)"
    using acknowledge_found_or_not [OF s2 tz, of "clock 9 30", THEN conjunct1, THEN mp]
      none10
    unfolding ud lang by blast
  from a b show ?thesis ..
qed

subsection \<open>The acknowledgment handler is idempotent\<close>

text \<open>
  C5. When a call of the acknowledgment handler returns, a second call with the same chat
  and the same callback data, at a clock reading of the same local date, returns the same
  reply and leaves the items of the table exactly as the first call left them.
\<close>

theorem acknowledge_idempotent:
  assumes first: "callback_acknowledge lib now1 st cid query_data = Inr (reply, st1)"
      and same_date: "\<forall>tz. resolve_tz lib (getd (timezone (get_user_data st cid)) ''UTC'') = Inr tz
             \<longrightarrow> strftime_Ymd lib (tz now2) = strftime_Ymd lib (tz now1)"
  shows "\<exists>st2. callback_acknowledge lib now2 st1 cid query_data = Inr (reply, st2)
               \<and> items st2 = items st1"
proof -
  define ud where "ud = get_user_data st cid"
  define lang where "lang = getd (language ud) ''ru''"
  define meds where "meds = getd (medications ud) []"
  show ?thesis
  proof (cases "\<exists>n t. split_str CHR ''|'' query_data = [''ack'', n, t]")
    case False
    then have inv: "\<And>s. callback_acknowledge lib now1 s cid query_data
                   = Inr (get_msg ''ack_invalid'' (getd (language (get_user_data s cid)) ''ru'') [], s)"
                "\<And>s. callback_acknowledge lib now2 s cid query_data
                   = Inr (get_msg ''ack_invalid'' (getd (language (get_user_data s cid)) ''ru'') [], s)"
      by (auto simp: callback_acknowledge_def Let_def split: list.splits)
    with first show ?thesis by auto
  next
    case True
    then obtain n t where data: "split_str CHR ''|'' query_data = [''ack'', n, t]" by blast
    from first data obtain tz where tz: "resolve_tz lib (getd (timezone ud) ''UTC'') = Inr tz"
      by (cases "resolve_tz lib (getd (timezone ud) ''UTC'')")
         (auto simp: callback_acknowledge_def Let_def ud_def)
    with same_date have today: "strftime_Ymd lib (tz now2) = strftime_Ymd lib (tz now1)"
      by (simp add: ud_def)
    define d where "d = strftime_Ymd lib (tz now1)"
    obtain meds' found where loop: "ack_loop lib n t d meds = (meds', found)"
      by (cases "ack_loop lib n t d meds")
    show ?thesis
    proof (cases found)
      case False
      with first data tz loop have "st1 = st" "reply = get_msg ''medicine_for_ack_not_found'' lang []"
        by (auto simp: callback_acknowledge_def Let_def ud_def meds_def lang_def d_def)
      moreover have "callback_acknowledge lib now2 st cid query_data
          = Inr (get_msg ''medicine_for_ack_not_found'' lang [], st)"
        using data tz loop False today
        by (auto simp: callback_acknowledge_def Let_def ud_def meds_def lang_def d_def)
      ultimately show ?thesis by simp
    next
      case True
      define ud' where "ud' = ud\<lparr>medications := Some meds'\<rparr>"
      from first data tz loop True have r: "st1 = save_user_data st ud'"
          "reply = get_msg ''acknowledged_success'' lang []"
        by (auto simp: callback_acknowledge_def Let_def ud_def meds_def lang_def d_def ud'_def)
      have get: "get_user_data st1 cid = ud'"
        unfolding r(1)
        by (rule get_user_data_save)
           (simp_all add: ud'_def ud_def chat_id_get_user_data language_get_user_data)
      have loop2: "ack_loop lib n t d meds' = (meds', True)"
        using ack_loop_idem [of lib n t d meds] loop True by simp
      have "callback_acknowledge lib now2 st1 cid query_data
          = Inr (get_msg ''acknowledged_success'' lang [], save_user_data st1 ud')"
        using data tz loop2 today
        by (simp add: callback_acknowledge_def Let_def get ud'_def lang_def d_def getd_def)
      moreover have "items (save_user_data st1 ud') = items st1"
        unfolding r(1) by (rule save_twice)
      ultimately show ?thesis using r(2) by simp
    qed
  qed
qed

text \<open>The second user acknowledges Aspirin at 09:30 and again at 17:00.\<close>

theorem acknowledge_idempotent_witness:
  "callback_acknowledge stdlib (clock 9 30) table0 ''2'' ''ack|ASPIRIN|09:00''
     = Inr (get_msg ''acknowledged_success'' ''ru'' [],
            save_user_data table0
              (bob\<lparr>medications := Some [pills,
                 aspirin\<lparr>acknowledged := Some (Map.empty(''09:00'' \<mapsto> ''2024-01-01''))\<rparr>]\<rparr>))
   \<and> (\<exists>st2. callback_acknowledge stdlib (clock 17 0)
              (save_user_data table0
                (bob\<lparr>medications := Some [pills,
                   aspirin\<lparr>acknowledged := Some (Map.empty(''09:00'' \<mapsto> ''2024-01-01''))\<rparr>]\<rparr>))
              ''2'' ''ack|ASPIRIN|09:00''
            = Inr (get_msg ''acknowledged_success'' ''ru'' [], st2)
          \<and> items st2 = [alice, bob\<lparr>medications := Some [pills,
                   aspirin\<lparr>acknowledged := Some (Map.empty(''09:00'' \<mapsto> ''2024-01-01''))\<rparr>]\<rparr>])"
proof -
  have first: "callback_acknowledge stdlib (clock 9 30) table0 ''2'' ''ack|ASPIRIN|09:00''
     = Inr (get_msg ''acknowledged_success'' ''ru'' [],
            save_user_data table0
              (bob\<lparr>medications := Some [pills,
                 aspirin\<lparr>acknowledged := Some (Map.empty(''09:00'' \<mapsto> ''2024-01-01''))\<rparr>]\<rparr>))"
    by (simp add: callback_acknowledge_def get_user_data_def get_item_def table0_def alice_def
          bob_def pills_def aspirin_def getd_def resolve_tz_def std_defs)
  have same: "\<forall>tz. resolve_tz stdlib (getd (timezone (get_user_data table0 ''2'')) ''UTC'') = Inr tz
             \<longrightarrow> strftime_Ymd stdlib (tz (clock 17 0)) = strftime_Ymd stdlib (tz (clock 9 30))"
    by (simp add: get_user_data_def get_item_def table0_def alice_def bob_def getd_def
          resolve_tz_def std_defs)
  have its: "items (save_user_data table0
                (bob\<lparr>medications := Some [pills,
                   aspirin\<lparr>acknowledged := Some (Map.empty(''09:00'' \<mapsto> ''2024-01-01''))\<rparr>]\<rparr>))
       = [alice, bob\<lparr>medications := Some [pills,
                   aspirin\<lparr>acknowledged := Some (Map.empty(''09:00'' \<mapsto> ''2024-01-01''))\<rparr>]\<rparr>]"
    by (simp add: save_user_data_def table0_def alice_def bob_def)
  from acknowledge_idempotent [OF first same] first its show ?thesis by simp
qed

subsection \<open>Names as a key\<close>

text \<open>
  C6, as stated, says that no two medications of a user have names equal up to case and
  that every operation, \<open>add_medicine\<close> in particular, keeps it so. \<open>add_medicine\<close> appends
  the new entry without looking at the names already there: adding \<open>aspirin\<close> to a list
  that holds \<open>Aspirin\<close> gives a list with both.
\<close>

theorem add_medicine_duplicate_name_counterexample:
  "table_names_unique stdlib table0
   \<and> add_medicine table0 ''1'' [''aspirin'', ''100mg'', ''21:00''] =
       Inr (get_msg ''medicine_added'' ''en''
              [(''medicine'', ''aspirin''), (''dosage'', ''100mg''), (''times'', ''21:00'')],
            save_user_data table0
              (alice\<lparr>medications := Some [aspirin,
                 \<lparr>name = Some ''aspirin'', dosage = Some ''100mg'', times' = Some [''21:00''],
                  acknowledged = Some Map.empty, last_reminder_time = None\<rparr>]\<rparr>))
   \<and> \<not> table_names_unique stdlib
         (save_user_data table0
            (alice\<lparr>medications := Some [aspirin,
               \<lparr>name = Some ''aspirin'', dosage = Some ''100mg'', times' = Some [''21:00''],
                acknowledged = Some Map.empty, last_reminder_time = None\<rparr>]\<rparr>))"
proof (intro conjI)
  show "table_names_unique stdlib table0"
    by (simp add: table_names_unique_def names_unique_def name_key_def table0_def alice_def
          bob_def pills_def aspirin_def getd_def stdlib_def lower_char_def)
  show "add_medicine table0 ''1'' [''aspirin'', ''100mg'', ''21:00''] =
       Inr (get_msg ''medicine_added'' ''en''
              [(''medicine'', ''aspirin''), (''dosage'', ''100mg''), (''times'', ''21:00'')],
            save_user_data table0
              (alice\<lparr>medications := Some [aspirin,
                 \<lparr>name = Some ''aspirin'', dosage = Some ''100mg'', times' = Some [''21:00''],
                  acknowledged = Some Map.empty, last_reminder_time = None\<rparr>]\<rparr>))"
    by (simp add: add_medicine_def get_user_data_def get_item_def table0_def alice_def bob_def
          getd_def)
  show "\<not> table_names_unique stdlib
         (save_user_data table0
            (alice\<lparr>medications := Some [aspirin,
               \<lparr>name = Some ''aspirin'', dosage = Some ''100mg'', times' = Some [''21:00''],
                acknowledged = Some Map.empty, last_reminder_time = None\<rparr>]\<rparr>))"
    by (simp add: table_names_unique_def names_unique_def name_key_def save_user_data_def
          table0_def alice_def bob_def aspirin_def getd_def stdlib_def lower_char_def)
qed

text \<open>
  C6, amended. The name is the key, compared without regard to case, under which deletion
  and acknowledgment look a medication up; the code does not enforce that it is unique.
  On a table in which names are unique within every user's list, \<open>add_medicine\<close> with a
  name, a dosage and at least one time keeps them unique exactly when the new name differs,
  up to case, from every name already in the user's list, and with fewer arguments it
  leaves the table as it is; deletion, setting the time zone, setting the language,
  acknowledgment and the sweep keep names unique.
\<close>

theorem names_unique_preserved_unless_added:
  assumes "table_names_unique lib st"
  shows "(\<forall>n d t ts r st'.
            add_medicine st cid (n # d # t # ts) = Inr (r, st')
            \<longrightarrow> (table_names_unique lib st' \<longleftrightarrow>
                 lower lib n \<notin> name_key lib ` set (getd (medications (get_user_data st cid)) [])))
       \<and> (\<forall>r st'. length args < 3 \<and> add_medicine st cid args = Inr (r, st') \<longrightarrow> st' = st)
       \<and> table_names_unique lib (snd (delete_medicine lib st cid args))
       \<and> table_names_unique lib (snd (set_timezone st cid args))
       \<and> table_names_unique lib (snd (set_language lib st cid args))
       \<and> (\<forall>r st'. callback_acknowledge lib now_utc st cid query_data = Inr (r, st')
                   \<longrightarrow> table_names_unique lib st')
       \<and> table_names_unique lib (fst (send_reminders_async lib now_utc st))"
proof (intro conjI allI impI)
  fix n d t ts r st'
  assume "add_medicine st cid (n # d # t # ts) = Inr (r, st')"
  with assms show "table_names_unique lib st' \<longleftrightarrow>
      lower lib n \<notin> name_key lib ` set (getd (medications (get_user_data st cid)) [])"
    by (rule add_unique)
next
  fix r st'
  assume "length args < 3 \<and> add_medicine st cid args = Inr (r, st')"
  then show "st' = st" by (auto dest: add_short)
next
  show "table_names_unique lib (snd (delete_medicine lib st cid args))"
    using assms by (rule delete_unique)
  show "table_names_unique lib (snd (set_timezone st cid args))"
    using assms by (rule set_timezone_unique)
  show "table_names_unique lib (snd (set_language lib st cid args))"
    using assms by (rule set_language_unique)
  show "table_names_unique lib (fst (send_reminders_async lib now_utc st))"
    using assms by (rule sweep_unique)
next
  fix r st'
  assume "callback_acknowledge lib now_utc st cid query_data = Inr (r, st')"
  with assms show "table_names_unique lib st'" by (rule ack_unique)
qed

text \<open>
  On the example table names are unique; they stay so when the first user adds Ibuprofen,
  when the second user deletes \<open>PILLS\<close>, and after the sweep of 08:30.
\<close>

theorem names_unique_preserved_unless_added_witness:
  "table_names_unique stdlib table0
   \<and> table_names_unique stdlib
       (save_user_data table0
          (alice\<lparr>medications := Some [aspirin,
             \<lparr>name = Some ''Ibuprofen'', dosage = Some ''200mg'', times' = Some [''12:00''],
              acknowledged = Some Map.empty, last_reminder_time = None\<rparr>]\<rparr>))
   \<and> table_names_unique stdlib (snd (delete_medicine stdlib table0 ''2'' [''PILLS'']))
   \<and> table_names_unique stdlib (fst (send_reminders_async stdlib (clock 8 30) table0))"
proof -
  have h: "table_names_unique stdlib table0"
    by (simp add: table_names_unique_def names_unique_def name_key_def table0_def alice_def
          bob_def pills_def aspirin_def getd_def stdlib_def lower_char_def)
  have add: "add_medicine table0 ''1'' (''Ibuprofen'' # ''200mg'' # ''12:00'' # []) =
       Inr (get_msg ''medicine_added'' ''en''
              [(''medicine'', ''Ibuprofen''), (''dosage'', ''200mg''), (''times'', ''12:00'')],
            save_user_data table0
              (alice\<lparr>medications := Some [aspirin,
                 \<lparr>name = Some ''Ibuprofen'', dosage = Some ''200mg'', times' = Some [''12:00''],
                  acknowledged = Some Map.empty, last_reminder_time = None\<rparr>]\<rparr>))"
    by (simp add: add_medicine_def get_user_data_def get_item_def table0_def alice_def bob_def
          getd_def)
  have new: "lower stdlib ''Ibuprofen''
      \<notin> name_key stdlib ` set (getd (medications (get_user_data table0 ''1'')) [])"
    by (simp add: get_user_data_def get_item_def table0_def alice_def bob_def aspirin_def
          getd_def name_key_def stdlib_def lower_char_def)
  note inst1 = names_unique_preserved_unless_added
               [OF h, of "''1''" "[''PILLS'']" "clock 8 30" "''''"]
  note inst2 = names_unique_preserved_unless_added
               [OF h, of "''2''" "[''PILLS'']" "clock 8 30" "''''"]
  have a: "table_names_unique stdlib
       (save_user_data table0
          (alice\<lparr>medications := Some [aspirin,
             \<lparr>name = Some ''Ibuprofen'', dosage = Some ''200mg'', times' = Some [''12:00''],
              acknowledged = Some Map.empty, last_reminder_time = None\<rparr>]\<rparr>))"
    using inst1 [THEN conjunct1, rule_format, OF add] new by simp
  have b: "table_names_unique stdlib (snd (delete_medicine stdlib table0 ''2'' [''PILLS'']))"
    using inst2 by blast
  have c: "table_names_unique stdlib (fst (send_reminders_async stdlib (clock 8 30) table0))"
    using inst1 by blast
  from h a b c show ?thesis by blast
qed

subsection \<open>Setting the time zone and the language\<close>

text \<open>
  C7, as stated, says that both commands overwrite their field with the supplied value
  and validate nothing. \<open>set_language\<close> does validate: the argument \<open>fr\<close> is refused with
  the usage message and the language of the record stays as it was.
\<close>

theorem set_language_not_unconditional_counterexample:
  "set_language stdlib table0 ''1'' [''fr''] = (get_msg ''setlanguage_usage'' ''en'' [], table0)
   \<and> language (get_user_data (snd (set_language stdlib table0 ''1'' [''fr''])) ''1'') \<noteq> Some ''fr''"
  by (simp add: set_language_def get_user_data_def get_item_def table0_def alice_def bob_def
        getd_def stdlib_def lower_char_def)

text \<open>
  C7, amended. Given an argument, \<open>set_timezone\<close> overwrites the time zone of the record
  with the argument as supplied, whatever it is, and saves the record. \<open>set_language\<close>
  turns its argument to lower case and, only when the result is \<open>ru\<close> or \<open>en\<close>, overwrites
  the language with that lower-case value and saves the record; for any other argument it
  replies with the usage message and writes nothing.
\<close>

theorem set_timezone_language_overwrite:
  fixes lib :: pylib and st :: store and cid :: string
  defines "ud \<equiv> get_user_data st cid"
  defines "lang \<equiv> getd (language ud) ''ru''"
  shows "set_timezone st cid (tz # rest) =
           (get_msg ''timezone_set'' lang [(''timezone'', tz)],
            save_user_data st (ud\<lparr>timezone := Some tz\<rparr>))
       \<and> set_language lib st cid (a # rest) =
           (if lower lib a = ''ru'' \<or> lower lib a = ''en''
            then (get_msg ''language_set'' (lower lib a) [],
                  save_user_data st (ud\<lparr>language := Some (lower lib a)\<rparr>))
            else (get_msg ''setlanguage_usage'' lang [], st))"
  unfolding ud_def lang_def
  by (auto simp: set_timezone_def set_language_def Let_def)

text \<open>
  The time zone \<open>Mars/Base\<close> is stored although no such zone exists; \<open>RU\<close> is stored as
  \<open>ru\<close>; \<open>fr\<close> is refused.
\<close>

theorem set_timezone_language_overwrite_witness:
  "set_timezone table0 ''1'' [''Mars/Base''] =
     (get_msg ''timezone_set'' ''en'' [(''timezone'', ''Mars/Base'')],
      save_user_data table0 (alice\<lparr>timezone := Some ''Mars/Base''\<rparr>))
   \<and> set_language stdlib table0 ''1'' [''RU''] =
     (get_msg ''language_set'' ''ru'' [],
      save_user_data table0 (alice\<lparr>language := Some ''ru''\<rparr>))
   \<and> set_language stdlib table0 ''1'' [''fr''] = (get_msg ''setlanguage_usage'' ''en'' [], table0)"
proof -
  have ud: "get_user_data table0 ''1'' = alice"
    by (simp add: get_user_data_def get_item_def table0_def alice_def bob_def)
  have lang: "getd (language alice) ''ru'' = ''en''"
    by (simp add: alice_def getd_def)
  have l1: "lower stdlib ''RU'' = ''ru''" by (simp add: stdlib_def lower_char_def)
  have l2: "lower stdlib ''fr'' = ''fr''" by (simp add: stdlib_def lower_char_def)
  show ?thesis
    using set_timezone_language_overwrite [of table0 "''1''" "''Mars/Base''" "[]" stdlib "''RU''"]
      set_timezone_language_overwrite [of table0 "''1''" "''Mars/Base''" "[]" stdlib "''fr''"]
    unfolding ud lang l1 l2 by simp
qed

subsection \<open>A time zone that does not resolve\<close>

text \<open>
  C8. When the time zone string of a record does not resolve and \<open>UTC\<close> does, the sweep and
  the acknowledgment handler take the zone \<open>UTC\<close> in its place: the string resolves to the
  zone of \<open>UTC\<close>, both behave exactly as they would if the zone database listed the string
  as another name of \<open>UTC\<close>, and neither raises, whatever the table holds.
\<close>

theorem invalid_timezone_falls_back_to_utc:
  assumes "ZoneInfo lib bad = None" and "ZoneInfo lib ''UTC'' = Some z"
  shows "resolve_tz lib bad = Inr z
       \<and> send_reminders_async lib now_utc st
           = send_reminders_async (lib\<lparr>ZoneInfo := (ZoneInfo lib)(bad \<mapsto> z)\<rparr>) now_utc st
       \<and> snd (snd (send_reminders_async lib now_utc st)) = None
       \<and> callback_acknowledge lib now_utc st cid query_data
           = callback_acknowledge (lib\<lparr>ZoneInfo := (ZoneInfo lib)(bad \<mapsto> z)\<rparr>) now_utc st cid
               query_data
       \<and> (\<exists>r. callback_acknowledge lib now_utc st cid query_data = Inr r)"
proof (intro conjI)
  show "resolve_tz lib bad = Inr z"
    using assms by (simp add: resolve_tz_def)
  show "send_reminders_async lib now_utc st
           = send_reminders_async (lib\<lparr>ZoneInfo := (ZoneInfo lib)(bad \<mapsto> z)\<rparr>) now_utc st"
    by (simp add: send_reminders_async_def users_zone_free [OF resolve_tz_alias [OF assms]])
  show "snd (snd (send_reminders_async lib now_utc st)) = None"
    using users_loop_no_raise [OF assms(2), of now_utc st "[]" "items st"]
    by (auto simp: send_reminders_async_def split: prod.splits option.splits)
  show "callback_acknowledge lib now_utc st cid query_data
           = callback_acknowledge (lib\<lparr>ZoneInfo := (ZoneInfo lib)(bad \<mapsto> z)\<rparr>) now_utc st cid
               query_data"
    by (simp add: ack_zone_free [OF resolve_tz_alias [OF assms]])
  show "\<exists>r. callback_acknowledge lib now_utc st cid query_data = Inr r"
    using assms(2) by (rule ack_no_raise)
qed

text \<open>
  The second user's time zone \<open>Mars/Base\<close> is not in the zone database, \<open>UTC\<close> is: the
  sweep and the acknowledgment both return.
\<close>

theorem invalid_timezone_falls_back_to_utc_witness:
  "ZoneInfo stdlib ''Mars/Base'' = None \<and> ZoneInfo stdlib ''UTC'' = Some utc
   \<and> resolve_tz stdlib ''Mars/Base'' = Inr utc
   \<and> snd (snd (send_reminders_async stdlib (clock 8 30) table0)) = None
   \<and> (\<exists>r. callback_acknowledge stdlib (clock 8 30) table0 ''2'' ''ack|Pills|08:00'' = Inr r)"
proof -
  have h1: "ZoneInfo stdlib ''Mars/Base'' = None"
    by (simp add: stdlib_def std_ZoneInfo_def)
  have h2: "ZoneInfo stdlib ''UTC'' = Some utc"
    by (simp add: stdlib_def std_ZoneInfo_def)
  from invalid_timezone_falls_back_to_utc
         [OF h1 h2, of "clock 8 30" table0 "''2''" "''ack|Pills|08:00''"] h1 h2
  show ?thesis by blast
qed

subsection \<open>Deleting a medication\<close>

text \<open>
  C9. Given a name, \<open>delete_medicine\<close> keeps exactly the medications whose name differs
  from it without regard to case, each kept entry whole and in its place, so that every
  matching medication goes with all of its fields; it saves the record and confirms. When
  no medication matches, it replies not-found and returns the table as it was, nothing
  written.
\<close>

theorem delete_medicine_removes_matching:
  fixes lib :: pylib and st :: store and cid :: string
  defines "ud \<equiv> get_user_data st cid"
  defines "meds \<equiv> getd (medications ud) []"
  defines "lang \<equiv> getd (language ud) ''ru''"
  shows "delete_medicine lib st cid (medicine_name # rest) =
     (if \<exists>m\<in>set meds. lower lib (getd (name m) []) = lower lib medicine_name
      then (get_msg ''medicine_deleted'' lang [(''medicine'', medicine_name)],
            save_user_data st
              (ud\<lparr>medications :=
                    Some [m \<leftarrow> meds. lower lib (getd (name m) []) \<noteq> lower lib medicine_name]\<rparr>))
      else (get_msg ''medicine_not_found'' lang [(''medicine'', medicine_name)], st))"
  unfolding ud_def meds_def lang_def
  by (auto simp: delete_medicine_def Let_def length_filter_eq)

text \<open>
  The second user deletes \<open>PILLS\<close> (stored as \<open>Pills\<close>), which leaves Aspirin, and then a
  medication that is not in the list.
\<close>

theorem delete_medicine_removes_matching_witness:
  "delete_medicine stdlib table0 ''2'' [''PILLS''] =
     (get_msg ''medicine_deleted'' ''ru'' [(''medicine'', ''PILLS'')],
      save_user_data table0 (bob\<lparr>medications := Some [aspirin]\<rparr>))
   \<and> delete_medicine stdlib table0 ''2'' [''Ibuprofen''] =
     (get_msg ''medicine_not_found'' ''ru'' [(''medicine'', ''Ibuprofen'')], table0)"
proof -
  have ud: "get_user_data table0 ''2'' = bob"
    by (simp add: get_user_data_def get_item_def table0_def alice_def bob_def)
  have meds: "getd (medications bob) [] = [pills, aspirin]"
    by (simp add: bob_def getd_def)
  have lang: "getd (language bob) ''ru'' = ''ru''"
    by (simp add: bob_def getd_def)
  have n1: "lower stdlib (getd (name pills) []) = lower stdlib ''PILLS''"
    by (simp add: pills_def getd_def stdlib_def lower_char_def)
  have n2: "lower stdlib (getd (name aspirin) []) \<noteq> lower stdlib ''PILLS''"
    by (simp add: aspirin_def getd_def stdlib_def lower_char_def)
  have n3: "lower stdlib (getd (name pills) []) \<noteq> lower stdlib ''Ibuprofen''"
    by (simp add: pills_def getd_def stdlib_def lower_char_def)
  have n4: "lower stdlib (getd (name aspirin) []) \<noteq> lower stdlib ''Ibuprofen''"
    by (simp add: aspirin_def getd_def stdlib_def lower_char_def)
  have a: "delete_medicine stdlib table0 ''2'' [''PILLS''] =
     (get_msg ''medicine_deleted'' ''ru'' [(''medicine'', ''PILLS'')],
      save_user_data table0 (bob\<lparr>medications := Some [aspirin]\<rparr>))"
    using delete_medicine_removes_matching [of stdlib table0 "''2''" "''PILLS''" "[]"]
    unfolding ud meds lang using n1 n2 by simp
  have b: "delete_medicine stdlib table0 ''2'' [''Ibuprofen''] =
     (get_msg ''medicine_not_found'' ''ru'' [(''medicine'', ''Ibuprofen'')], table0)"
    using delete_medicine_removes_matching [of stdlib table0 "''2''" "''Ibuprofen''" "[]"]
    unfolding ud meds lang using n3 n4 by simp
  from a b show ?thesis ..
qed

subsection \<open>One write per modified user\<close>

text \<open>
  C10. The table keys its items by \<open>chat_id\<close>, so the scanned items have distinct chat
  ids. In a sweep the writes to the table are then at most one per user, made when the
  loop over that user's medications has ended, and the users written are exactly the users
  for whom the sweep scheduled a reminder, which is the only change a sweep makes to a
  record: a user with nothing due is not written. This holds up to the point where the
  sweep stops, also when it stops by raising; \<open>send_reminders_async\<close> returns the table so
  written.
\<close>

theorem sweep_writes_once_per_modified_user:
  assumes "distinct (map chat_id (items st))"
      and "send_reminders_users lib now_utc st [] (items st) = (st', tasks, err)"
  shows "send_reminders_async lib now_utc st = (st', if err = None then tasks else [], err)
       \<and> (\<exists>ws. put_log st' = put_log st @ ws
               \<and> items st' = foldl (\<lambda>xs w. put_item w xs) (items st) ws
               \<and> distinct (map chat_id ws)
               \<and> chat_id ` set ws = to_chat ` set tasks)"
proof
  show "send_reminders_async lib now_utc st = (st', if err = None then tasks else [], err)"
    using assms(2) by (cases err) (simp_all add: send_reminders_async_def)
next
  from users_loop_shape [of lib now_utc st "[]" "items st"] assms
  show "\<exists>ws. put_log st' = put_log st @ ws
               \<and> items st' = foldl (\<lambda>xs w. put_item w xs) (items st) ws
               \<and> distinct (map chat_id ws)
               \<and> chat_id ` set ws = to_chat ` set tasks"
    by auto
qed

text \<open>
  At 08:30 nothing of the first user is due, and the fire time 08:00 of the second user's
  \<open>pills\<close> is: the one write of the sweep is the record of the second user.
\<close>

theorem sweep_writes_once_per_modified_user_witness:
  "distinct (map chat_id (items table0))
   \<and> send_reminders_async stdlib (clock 8 30) table0 =
       (\<lparr>items = [alice, bob\<lparr>medications := Some
                     [pills\<lparr>last_reminder_time := Some ''2024-01-01T08:30:00+00:00''\<rparr>, aspirin]\<rparr>],
         put_log = [bob\<lparr>medications := Some
                     [pills\<lparr>last_reminder_time := Some ''2024-01-01T08:30:00+00:00''\<rparr>, aspirin]\<rparr>]\<rparr>,
        [reminder_message ''2'' ''ru'' ''Pills'' pills ''08:00''], None)
   \<and> (\<exists>ws. [bob\<lparr>medications := Some
                     [pills\<lparr>last_reminder_time := Some ''2024-01-01T08:30:00+00:00''\<rparr>, aspirin]\<rparr>]
              = put_log table0 @ ws
            \<and> distinct (map chat_id ws)
            \<and> chat_id ` set ws = {''2''})"
proof -
  have h1: "distinct (map chat_id (items table0))"
    by (simp add: table0_def alice_def bob_def)
  have h2: "send_reminders_users stdlib (clock 8 30) table0 [] (items table0) =
       (\<lparr>items = [alice, bob\<lparr>medications := Some
                     [pills\<lparr>last_reminder_time := Some ''2024-01-01T08:30:00+00:00''\<rparr>, aspirin]\<rparr>],
         put_log = [bob\<lparr>medications := Some
                     [pills\<lparr>last_reminder_time := Some ''2024-01-01T08:30:00+00:00''\<rparr>, aspirin]\<rparr>]\<rparr>,
        [reminder_message ''2'' ''ru'' ''Pills'' pills ''08:00''], None)"
    by (simp add: table0_def alice_def bob_def pills_def aspirin_def resolve_tz_def getd_def
          send_reminders_med_def send_reminders_time_def sent_on_def dt_less_def
          save_user_data_def Let_def std_defs)
  have r: "to_chat (reminder_message ''2'' ''ru'' ''Pills'' pills ''08:00'') = ''2''"
    by (simp add: reminder_message_def)
  from sweep_writes_once_per_modified_user [OF h1 h2] h1 r show ?thesis by auto
qed

end
